theory Spec2Isabelle
  imports Complex_Main
begin

section \<open>JavaScript and Firestore values\<close>

text \<open>
  The values that occur as fields of the three entity kinds and of stored documents.
  A JavaScript number is carried by its mathematical value (\<open>JNum\<close>, a rational), with
  \<open>NaN\<close> and the two infinities as separate constructors; rounding to IEEE doubles is not
  part of the model, so it agrees with the program on the integers below \<open>2 ^ 53\<close>, which
  doubles hold exactly, and \<open>-0\<close> is identified with \<open>0\<close>.
  A string is a list of code units from 0 to 255.
  \<open>JTimestamp seconds nanoseconds\<close> is the provider's \<open>Timestamp\<close>, \<open>JDate ms\<close> a native
  \<open>Date\<close> (milliseconds since the epoch).
  A field that is absent from an object reads as \<open>undefined\<close>: objects are maps, and
  \<open>None\<close> is \<open>undefined\<close>.
\<close>

datatype jsval =
    JNull
  | JBool bool
  | JNum rat
  | JNaN
  | JInfinity
  | JNegInfinity
  | JStr string
  | JTimestamp int int
  | JDate int
  | JArray "jsval list"
  | JObject "(string \<times> jsval) list"

type_synonym fields = "string \<rightharpoonup> jsval"

datatype error =
    Error string
  | TypeError string
  | FirestoreNotFound
  | FirestoreInvalidArgument

text \<open>JavaScript's \<open>ToBoolean\<close>; \<open>undefined\<close> (an absent field) is falsy.\<close>

fun truthy :: "jsval \<Rightarrow> bool" where
  "truthy JNull = False"
| "truthy (JBool b) = b"
| "truthy (JNum r) = (r \<noteq> 0)"
| "truthy JNaN = False"
| "truthy (JStr s) = (s \<noteq> [])"
| "truthy _ = True"

definition truthy_opt :: "jsval option \<Rightarrow> bool" where
  "truthy_opt v = (case v of None \<Rightarrow> False | Some x \<Rightarrow> truthy x)"

text \<open>\<open>v || null\<close> for a field read \<open>v\<close>.\<close>

definition or_null :: "jsval option \<Rightarrow> jsval" where
  "or_null v = (case v of None \<Rightarrow> JNull | Some x \<Rightarrow> if truthy x then x else JNull)"

subsection \<open>\<open>Number(string)\<close>\<close>

text \<open>
  \<open>Number\<close> applied to a string follows the \<open>StringNumericLiteral\<close> grammar of ECMAScript:
  white space is trimmed at both ends; the empty string is \<open>0\<close>; then either a binary, octal
  or hexadecimal integer literal without sign, or an optionally signed \<open>Infinity\<close> or decimal
  literal with optional fraction and exponent; anything else is \<open>NaN\<close>.
\<close>

definition is_ws :: "char \<Rightarrow> bool" where
  "is_ws c = ((of_char c :: nat) \<in> {9, 10, 11, 12, 13, 32, 160})"

definition is_digit :: "char \<Rightarrow> bool" where
  "is_digit c = (48 \<le> (of_char c :: nat) \<and> (of_char c :: nat) \<le> 57)"

definition digit_val :: "char \<Rightarrow> nat" where
  "digit_val c = (of_char c :: nat) - 48"

definition hex_val :: "char \<Rightarrow> nat option" where
  "hex_val c =
     (let n = (of_char c :: nat) in
      if 48 \<le> n \<and> n \<le> 57 then Some (n - 48)
      else if 65 \<le> n \<and> n \<le> 70 then Some (n - 55)
      else if 97 \<le> n \<and> n \<le> 102 then Some (n - 87)
      else None)"

definition trim :: "string \<Rightarrow> string" where
  "trim s = rev (dropWhile is_ws (rev (dropWhile is_ws s)))"

definition digits_val :: "string \<Rightarrow> nat" where
  "digits_val ds = foldl (\<lambda>a c. 10 * a + digit_val c) 0 ds"

definition pow10 :: "int \<Rightarrow> rat" where
  "pow10 k = (if 0 \<le> k then 10 ^ nat k else 1 / 10 ^ nat (- k))"

text \<open>Digits of a literal in base \<open>b\<close>: at least one digit, each below \<open>b\<close>.\<close>

definition radix_literal :: "nat \<Rightarrow> string \<Rightarrow> jsval" where
  "radix_literal b ds =
     (if ds \<noteq> [] \<and> list_all (\<lambda>c. case hex_val c of None \<Rightarrow> False | Some d \<Rightarrow> d < b) ds
      then JNum (of_nat (foldl (\<lambda>a c. b * a + the (hex_val c)) 0 ds))
      else JNaN)"

text \<open>The exponent part after the mantissa \<open>ip.fp\<close>; \<open>sg\<close> is the sign of the literal.\<close>

definition exponent_part :: "rat \<Rightarrow> string \<Rightarrow> string \<Rightarrow> string \<Rightarrow> jsval" where
  "exponent_part sg ip fp r =
     (case r of
        [] \<Rightarrow> JNum (sg * of_nat (digits_val (ip @ fp)) * pow10 (- int (length fp)))
      | c # r' \<Rightarrow>
          if c = CHR ''e'' \<or> c = CHR ''E'' then
            (let (es, ds) = (case r' of
                               [] \<Rightarrow> (1, [])
                             | d # r'' \<Rightarrow> if d = CHR ''+'' then (1, r'')
                                          else if d = CHR ''-'' then (- 1, r'')
                                          else (1, r'))
             in if ds \<noteq> [] \<and> list_all is_digit ds
                then JNum (sg * of_nat (digits_val (ip @ fp))
                             * pow10 (es * int (digits_val ds) - int (length fp)))
                else JNaN)
          else JNaN)"

definition unsigned_decimal :: "rat \<Rightarrow> string \<Rightarrow> jsval" where
  "unsigned_decimal sg s =
     (if s = ''Infinity'' then (if 0 < sg then JInfinity else JNegInfinity)
      else
        (let ip = takeWhile is_digit s; r = dropWhile is_digit s in
         case r of
           [] \<Rightarrow> if ip = [] then JNaN else exponent_part sg ip [] r
         | c # r' \<Rightarrow>
             if c = CHR ''.'' then
               (let fp = takeWhile is_digit r'; r'' = dropWhile is_digit r' in
                if ip = [] \<and> fp = [] then JNaN else exponent_part sg ip fp r'')
             else if ip = [] then JNaN else exponent_part sg ip [] r))"

definition Number :: "string \<Rightarrow> jsval" where
  "Number str =
     (let s = trim str in
      case s of
        [] \<Rightarrow> JNum 0
      | c # r \<Rightarrow>
          if c = CHR ''+'' then unsigned_decimal 1 r
          else if c = CHR ''-'' then unsigned_decimal (- 1) r
          else if c = CHR ''0'' \<and> r \<noteq> [] \<and> (hd r = CHR ''x'' \<or> hd r = CHR ''X'')
            then radix_literal 16 (tl r)
          else if c = CHR ''0'' \<and> r \<noteq> [] \<and> (hd r = CHR ''o'' \<or> hd r = CHR ''O'')
            then radix_literal 8 (tl r)
          else if c = CHR ''0'' \<and> r \<noteq> [] \<and> (hd r = CHR ''b'' \<or> hd r = CHR ''B'')
            then radix_literal 2 (tl r)
          else unsigned_decimal 1 s)"

definition isNaN :: "jsval \<Rightarrow> bool" where
  "isNaN v = (v = JNaN)"


section \<open>Document normalizer\<close>

text \<open>
  A \<open>DocumentSnapshot\<close>: the key of the document and its payload; \<open>data()\<close> is
  \<open>undefined\<close> (\<open>None\<close>) exactly when the document does not exist.
\<close>

record snapshot =
  doc_id :: string
  doc_data :: "fields option"

definition doc_exists :: "snapshot \<Rightarrow> bool" where
  "doc_exists doc = (doc_data doc \<noteq> None)"

text \<open>\<open>Timestamp.toDate()\<close> of the provider: milliseconds, the nanoseconds rounded.\<close>

definition toDate :: "int \<Rightarrow> int \<Rightarrow> int" where
  "toDate seconds nanoseconds = seconds * 1000 + (nanoseconds + 500000) div 1000000"

text \<open>
  The object spread by \<open>...(data.f && { f: data.f.toDate() })\<close>: nothing when the field
  is falsy (absent, \<open>null\<close>, \<open>0\<close>, the empty string), the converted field when it
  holds a timestamp; on any other truthy value \<open>toDate\<close> is not a function and the call
  throws.
\<close>

definition date_spread :: "fields \<Rightarrow> string \<Rightarrow> error + fields" where
  "date_spread data f =
     (if \<not> truthy_opt (data f) then Inr Map.empty
      else case data f of
             Some (JTimestamp s n) \<Rightarrow> Inr [f \<mapsto> JDate (toDate s n)]
           | _ \<Rightarrow> Inl (TypeError (''data.'' @ f @ ''.toDate is not a function'')))"

definition convertFirestoreData :: "snapshot \<Rightarrow> error + fields option" where
  "convertFirestoreData doc =
     (if \<not> doc_exists doc then Inr None
      else case doc_data doc of
        None \<Rightarrow> Inr None
      | Some data \<Rightarrow>
          (let id' = (if \<not> isNaN (Number (doc_id doc)) then Number (doc_id doc)
                     else JStr (doc_id doc))
           in case date_spread data ''createdAt'' of
                Inl e \<Rightarrow> Inl e
              | Inr c \<Rightarrow>
             (case date_spread data ''entryDate'' of
                Inl e \<Rightarrow> Inl e
              | Inr en \<Rightarrow>
             (case date_spread data ''exitDate'' of
                Inl e \<Rightarrow> Inl e
              | Inr ex \<Rightarrow> Inr (Some (data(''id'' \<mapsto> id') ++ c ++ en ++ ex))))))"

text \<open>The callback of \<open>snapshot.docs.map\<close> in \<open>convertFirestoreCollection\<close>.\<close>

definition convertCollectionDoc :: "snapshot \<Rightarrow> error + fields" where
  "convertCollectionDoc doc =
     (case doc_data doc of
        None \<Rightarrow> Inr Map.empty
      | Some data \<Rightarrow>
          (let id' = (if \<not> isNaN (Number (doc_id doc)) then Number (doc_id doc)
                     else JStr (doc_id doc))
           in case date_spread data ''createdAt'' of
                Inl e \<Rightarrow> Inl e
              | Inr c \<Rightarrow>
             (case date_spread data ''entryDate'' of
                Inl e \<Rightarrow> Inl e
              | Inr en \<Rightarrow>
             (case date_spread data ''exitDate'' of
                Inl e \<Rightarrow> Inl e
              | Inr ex \<Rightarrow> Inr (data(''id'' \<mapsto> id') ++ c ++ en ++ ex)))))"

text \<open>\<open>Array.prototype.map\<close> with a callback that may throw: the first exception ends it.\<close>

fun map_throwing :: "('a \<Rightarrow> error + 'b) \<Rightarrow> 'a list \<Rightarrow> error + 'b list" where
  "map_throwing f [] = Inr []"
| "map_throwing f (x # xs) =
     (case f x of
        Inl e \<Rightarrow> Inl e
      | Inr y \<Rightarrow> (case map_throwing f xs of Inl e \<Rightarrow> Inl e | Inr ys \<Rightarrow> Inr (y # ys)))"

text \<open>A \<open>QuerySnapshot\<close> is the list of its documents; \<open>empty\<close> says the list is empty.\<close>

definition convertFirestoreCollection :: "snapshot list \<Rightarrow> error + fields list" where
  "convertFirestoreCollection docs =
     (if docs = [] then Inr [] else map_throwing convertCollectionDoc docs)"

section \<open>The store\<close>

text \<open>
  The persisted layout: the singleton document \<open>system/counters\<close> (absent until
  initialised) and one collection per entity kind, each a map from document key to
  payload. The counters document is written by \<open>initializeCounters\<close> and \<open>getNextId\<close>
  only, which store integers, so its fields are integers.
\<close>

record store =
  counters :: "(string \<rightharpoonup> int) option"
  users :: "string \<rightharpoonup> fields"
  trades :: "string \<rightharpoonup> fields"
  collections :: "string \<rightharpoonup> fields"

text \<open>The provider stores a \<open>Date\<close> as a \<open>Timestamp\<close>, also inside arrays and maps.\<close>

fun to_firestore :: "jsval \<Rightarrow> jsval" where
  "to_firestore (JDate ms) = JTimestamp (ms div 1000) ((ms mod 1000) * 1000000)"
| "to_firestore (JArray xs) = JArray (map to_firestore xs)"
| "to_firestore (JObject kvs) = JObject (map (\<lambda>(k, v). (k, to_firestore v)) kvs)"
| "to_firestore v = v"

definition to_document :: "fields \<Rightarrow> fields" where
  "to_document r = (\<lambda>f. map_option to_firestore (r f))"

text \<open>\<open>ref.get()\<close>, \<open>ref.set(data)\<close>, \<open>ref.update(data)\<close> and \<open>ref.delete()\<close> on one
  collection. \<open>update\<close> needs the document to exist and at least one field; field
  names are taken literally (no dotted field paths).\<close>

definition doc_get :: "(string \<rightharpoonup> fields) \<Rightarrow> string \<Rightarrow> snapshot" where
  "doc_get coll key = \<lparr>doc_id = key, doc_data = coll key\<rparr>"

definition doc_set :: "(string \<rightharpoonup> fields) \<Rightarrow> string \<Rightarrow> fields \<Rightarrow> (string \<rightharpoonup> fields)" where
  "doc_set coll key data = coll(key \<mapsto> to_document data)"

definition doc_update ::
  "(string \<rightharpoonup> fields) \<Rightarrow> string \<Rightarrow> fields \<Rightarrow> error + (string \<rightharpoonup> fields)" where
  "doc_update coll key upd =
     (if upd = Map.empty then Inl FirestoreInvalidArgument
      else case coll key of
             None \<Rightarrow> Inl FirestoreNotFound
           | Some old \<Rightarrow> Inr (coll(key \<mapsto> old ++ to_document upd)))"

definition doc_delete :: "(string \<rightharpoonup> fields) \<Rightarrow> string \<Rightarrow> (string \<rightharpoonup> fields)" where
  "doc_delete coll key = coll(key := None)"

text \<open>\<open>Number.prototype.toString\<close> on an integer identifier: its decimal digits.\<close>

definition digit_char :: "nat \<Rightarrow> char" where
  "digit_char d = char_of (48 + d)"

fun decimal_of_nat :: "nat \<Rightarrow> string" where
  "decimal_of_nat n =
     (if 10 \<le> n then decimal_of_nat (n div 10) @ [digit_char (n mod 10)]
      else [digit_char n])"

declare decimal_of_nat.simps [simp del]

definition toString :: "int \<Rightarrow> string" where
  "toString n =
     (if n < 0 then CHR ''-'' # decimal_of_nat (nat (- n)) else decimal_of_nat (nat n))"

section \<open>Identifier allocator\<close>

definition initializeCounters :: "store \<Rightarrow> store" where
  "initializeCounters s =
     (if counters s = None
      then s\<lparr>counters := Some [''userId'' \<mapsto> 1, ''tradeId'' \<mapsto> 1, ''collectionId'' \<mapsto> 1]\<rparr>
      else s)"

text \<open>
  The body of the transaction, run as one step: \<open>data()?.[counterName] || 1\<close> is \<open>1\<close>
  when the document or the field is absent or the field is \<open>0\<close>;
  \<open>transaction.update\<close> fails when the counters document does not exist.
\<close>

definition getNextId :: "string \<Rightarrow> store \<Rightarrow> (error + int) \<times> store" where
  "getNextId counterName s =
     (let field = (case counters s of None \<Rightarrow> None | Some d \<Rightarrow> d counterName);
          currentValue = (case field of None \<Rightarrow> 1 | Some v \<Rightarrow> if v = 0 then 1 else v)
      in case counters s of
           None \<Rightarrow> (Inl FirestoreNotFound, s)
         | Some d \<Rightarrow>
             (Inr currentValue, s\<lparr>counters := Some (d(counterName \<mapsto> currentValue + 1))\<rparr>))"

text \<open>\<open>n\<close> calls of \<open>getNextId\<close> one after the other; the first failure ends the run.\<close>

fun getNextIds :: "nat \<Rightarrow> string \<Rightarrow> store \<Rightarrow> (error + int list) \<times> store" where
  "getNextIds 0 counterName s = (Inr [], s)"
| "getNextIds (Suc n) counterName s =
     (case getNextId counterName s of
        (Inl e, s') \<Rightarrow> (Inl e, s')
      | (Inr i, s') \<Rightarrow>
          (case getNextIds n counterName s' of
             (Inl e, s'') \<Rightarrow> (Inl e, s'')
           | (Inr is, s'') \<Rightarrow> (Inr (i # is), s'')))"


section \<open>Record store\<close>

text \<open>
  Every operation is a function of the store that returns the outcome of the promise
  (\<open>Inl\<close>: rejected with that error) together with the store it leaves behind; failures
  of the network or the provider are not part of the model. \<open>now\<close> is the reading of the
  clock at \<open>new Date()\<close>. An insert payload is an object without \<open>undefined\<close> fields.
\<close>

definition createUser :: "fields \<Rightarrow> int \<Rightarrow> store \<Rightarrow> (error + fields) \<times> store" where
  "createUser insertUser now s =
     (case getNextId ''userId'' s of
        (Inl e, s') \<Rightarrow> (Inl e, s')
      | (Inr id', s') \<Rightarrow>
          (let createdAt = JDate now;
               user = insertUser(''id'' \<mapsto> JNum (of_int id'),
                                 ''createdAt'' \<mapsto> createdAt,
                                 ''stripeCustomerId'' \<mapsto> JNull,
                                 ''stripeSubscriptionId'' \<mapsto> JNull,
                                 ''planType'' \<mapsto> JStr ''free'',
                                 ''avatar'' \<mapsto> or_null (insertUser ''avatar''))
           in (Inr user, s'\<lparr>users := doc_set (users s') (toString id') user\<rparr>)))"

definition updateUserStripeInfo ::
  "int \<Rightarrow> string \<Rightarrow> string \<Rightarrow> store \<Rightarrow> (error + fields) \<times> store" where
  "updateUserStripeInfo userId customerId subscriptionId s =
     (let key = toString userId;
          userDoc = doc_get (users s) key
      in if \<not> doc_exists userDoc then (Inl (Error ''User not found''), s)
         else
           (let updatedData = [''stripeCustomerId'' \<mapsto> JStr customerId,
                               ''stripeSubscriptionId'' \<mapsto> JStr subscriptionId]
            in case doc_update (users s) key updatedData of
                 Inl e \<Rightarrow> (Inl e, s)
               | Inr u \<Rightarrow>
                   (let s' = s\<lparr>users := u\<rparr>;
                        updatedUserDoc = doc_get (users s') key
                    in case convertFirestoreData updatedUserDoc of
                         Inl e \<Rightarrow> (Inl e, s')
                       | Inr None \<Rightarrow> (Inl (Error ''Failed to update user''), s')
                       | Inr (Some updatedUser) \<Rightarrow> (Inr updatedUser, s'))))"

definition updateUserPlan :: "int \<Rightarrow> string \<Rightarrow> store \<Rightarrow> (error + fields) \<times> store" where
  "updateUserPlan userId planType s =
     (let key = toString userId;
          userDoc = doc_get (users s) key
      in if \<not> doc_exists userDoc then (Inl (Error ''User not found''), s)
         else
           (case doc_update (users s) key [''planType'' \<mapsto> JStr planType] of
              Inl e \<Rightarrow> (Inl e, s)
            | Inr u \<Rightarrow>
                (let s' = s\<lparr>users := u\<rparr>;
                     updatedUserDoc = doc_get (users s') key
                 in case convertFirestoreData updatedUserDoc of
                      Inl e \<Rightarrow> (Inl e, s')
                    | Inr None \<Rightarrow> (Inl (Error ''Failed to update user''), s')
                    | Inr (Some updatedUser) \<Rightarrow> (Inr updatedUser, s'))))"

definition createTrade :: "fields \<Rightarrow> int \<Rightarrow> store \<Rightarrow> (error + fields) \<times> store" where
  "createTrade insertTrade now s =
     (case getNextId ''tradeId'' s of
        (Inl e, s') \<Rightarrow> (Inl e, s')
      | (Inr id', s') \<Rightarrow>
          (let createdAt = JDate now;
               trade = insertTrade(''id'' \<mapsto> JNum (of_int id'),
                                   ''createdAt'' \<mapsto> createdAt,
                                   ''notes'' \<mapsto> or_null (insertTrade ''notes''),
                                   ''collectionId'' \<mapsto> or_null (insertTrade ''collectionId''))
           in (Inr trade, s'\<lparr>trades := doc_set (trades s') (toString id') trade\<rparr>)))"

definition getTrade :: "int \<Rightarrow> store \<Rightarrow> error + fields option" where
  "getTrade id' s =
     (let tradeDoc = doc_get (trades s) (toString id')
      in case convertFirestoreData tradeDoc of
           Inl e \<Rightarrow> Inl e
         | Inr None \<Rightarrow> Inr None
         | Inr (Some tradeData) \<Rightarrow> Inr (Some tradeData))"

definition updateTrade :: "int \<Rightarrow> fields \<Rightarrow> store \<Rightarrow> (error + fields) \<times> store" where
  "updateTrade id' tradeUpdate s =
     (let key = toString id';
          tradeDoc = doc_get (trades s) key
      in if \<not> doc_exists tradeDoc then (Inl (Error ''Trade not found''), s)
         else
           (case doc_update (trades s) key tradeUpdate of
              Inl e \<Rightarrow> (Inl e, s)
            | Inr u \<Rightarrow>
                (let s' = s\<lparr>trades := u\<rparr>;
                     updatedTradeDoc = doc_get (trades s') key
                 in case convertFirestoreData updatedTradeDoc of
                      Inl e \<Rightarrow> (Inl e, s')
                    | Inr None \<Rightarrow> (Inl (Error ''Failed to update trade''), s')
                    | Inr (Some updatedTrade) \<Rightarrow> (Inr updatedTrade, s'))))"

definition deleteTrade :: "int \<Rightarrow> store \<Rightarrow> (error + bool) \<times> store" where
  "deleteTrade id' s =
     (let key = toString id';
          tradeDoc = doc_get (trades s) key
      in if \<not> doc_exists tradeDoc then (Inr False, s)
         else (Inr True, s\<lparr>trades := doc_delete (trades s) key\<rparr>))"

definition createCollection :: "fields \<Rightarrow> int \<Rightarrow> store \<Rightarrow> (error + fields) \<times> store" where
  "createCollection insertCollection now s =
     (case getNextId ''collectionId'' s of
        (Inl e, s') \<Rightarrow> (Inl e, s')
      | (Inr id', s') \<Rightarrow>
          (let createdAt = JDate now;
               collection = insertCollection(''id'' \<mapsto> JNum (of_int id'),
                                             ''createdAt'' \<mapsto> createdAt,
                                             ''description'' \<mapsto> or_null (insertCollection ''description''))
           in (Inr collection,
               s'\<lparr>collections := doc_set (collections s') (toString id') collection\<rparr>)))"

definition getCollection :: "int \<Rightarrow> store \<Rightarrow> error + fields option" where
  "getCollection id' s =
     (let collectionDoc = doc_get (collections s) (toString id')
      in case convertFirestoreData collectionDoc of
           Inl e \<Rightarrow> Inl e
         | Inr None \<Rightarrow> Inr None
         | Inr (Some collectionData) \<Rightarrow> Inr (Some collectionData))"

definition updateCollection :: "int \<Rightarrow> fields \<Rightarrow> store \<Rightarrow> (error + fields) \<times> store" where
  "updateCollection id' collectionUpdate s =
     (let key = toString id';
          collectionDoc = doc_get (collections s) key
      in if \<not> doc_exists collectionDoc then (Inl (Error ''Collection not found''), s)
         else
           (case doc_update (collections s) key collectionUpdate of
              Inl e \<Rightarrow> (Inl e, s)
            | Inr u \<Rightarrow>
                (let s' = s\<lparr>collections := u\<rparr>;
                     updatedCollectionDoc = doc_get (collections s') key
                 in case convertFirestoreData updatedCollectionDoc of
                      Inl e \<Rightarrow> (Inl e, s')
                    | Inr None \<Rightarrow> (Inl (Error ''Failed to update collection''), s')
                    | Inr (Some updatedCollection) \<Rightarrow> (Inr updatedCollection, s'))))"

definition deleteCollection :: "int \<Rightarrow> store \<Rightarrow> (error + bool) \<times> store" where
  "deleteCollection id' s =
     (let key = toString id';
          collectionDoc = doc_get (collections s) key
      in if \<not> doc_exists collectionDoc then (Inr False, s)
         else (Inr True, s\<lparr>collections := doc_delete (collections s) key\<rparr>))"


section \<open>Example data\<close>

text \<open>A small store: one account, one open trade (no exit date yet) and one collection.\<close>

definition example_user :: fields where
  "example_user =
     [''id'' \<mapsto> JNum 1, ''username'' \<mapsto> JStr ''alice'', ''email'' \<mapsto> JStr ''a@x.com'',
      ''password'' \<mapsto> JStr ''hash'', ''avatar'' \<mapsto> JNull,
      ''createdAt'' \<mapsto> JTimestamp 1700000000 0, ''stripeCustomerId'' \<mapsto> JNull,
      ''stripeSubscriptionId'' \<mapsto> JNull, ''planType'' \<mapsto> JStr ''free'']"

definition example_trade :: fields where
  "example_trade =
     [''id'' \<mapsto> JNum 4, ''userId'' \<mapsto> JNum 1, ''symbol'' \<mapsto> JStr ''AAPL'',
      ''createdAt'' \<mapsto> JTimestamp 1700000000 0,
      ''entryDate'' \<mapsto> JTimestamp 1700000100 250000000,
      ''exitDate'' \<mapsto> JNull, ''notes'' \<mapsto> JNull, ''collectionId'' \<mapsto> JNull]"

definition example_collection :: fields where
  "example_collection =
     [''id'' \<mapsto> JNum 1, ''userId'' \<mapsto> JNum 1, ''name'' \<mapsto> JStr ''swing'',
      ''description'' \<mapsto> JNull, ''createdAt'' \<mapsto> JTimestamp 1700000050 0]"

definition example_store :: store where
  "example_store =
     \<lparr>counters = Some [''userId'' \<mapsto> 2, ''tradeId'' \<mapsto> 5, ''collectionId'' \<mapsto> 2],
      users = [''1'' \<mapsto> example_user],
      trades = [''4'' \<mapsto> example_trade],
      collections = [''1'' \<mapsto> example_collection]\<rparr>"

section \<open>Well-formed date fields\<close>

text \<open>
  A date field is well formed when it is absent, falsy, or a timestamp: the values for
  which the normalizer's \<open>toDate\<close> call, if reached, is defined.
\<close>

definition date_field_ok :: "fields \<Rightarrow> string \<Rightarrow> bool" where
  "date_field_ok data f =
     (case data f of
        Some (JTimestamp s n) \<Rightarrow> True
      | v \<Rightarrow> \<not> truthy_opt v)"

definition date_fields_ok :: "fields \<Rightarrow> bool" where
  "date_fields_ok data =
     (date_field_ok data ''createdAt'' \<and> date_field_ok data ''entryDate''
      \<and> date_field_ok data ''exitDate'')"

text \<open>
  A date field of a record that the application builds is typed when it is absent,
  \<open>null\<close> or a native \<open>Date\<close>, as the entity types declare it.
\<close>

definition date_field_typed :: "fields \<Rightarrow> string \<Rightarrow> bool" where
  "date_field_typed r f =
     (case r f of
        None \<Rightarrow> True
      | Some JNull \<Rightarrow> True
      | Some (JDate ms) \<Rightarrow> True
      | _ \<Rightarrow> False)"

section \<open>Properties of the identifier allocator\<close>

lemma getNextId_step:
  assumes "counters s = Some d" and "d name = Some v" and "v \<noteq> 0"
  shows "getNextId name s = (Inr v, s\<lparr>counters := Some (d(name \<mapsto> v + 1))\<rparr>)"
  using assms by (simp add: getNextId_def)

lemma getNextId_absent_field:
  assumes "counters s = Some d" and "d name = None"
  shows "getNextId name s = (Inr 1, s\<lparr>counters := Some (d(name \<mapsto> 2))\<rparr>)"
  using assms by (simp add: getNextId_def)

lemma upt_Suc_shift: "[0..<Suc n] = 0 # map Suc [0..<n]"
  by (simp add: upt_conv_Cons map_Suc_upt del: upt_Suc)

lemma getNextIds_from:
  assumes "counters s = Some d" and "d name = Some v" and "0 < v"
  shows "getNextIds n name s =
           (Inr (map (\<lambda>k. v + int k) [0..<n]), s\<lparr>counters := Some (d(name \<mapsto> v + int n))\<rparr>)"
  using assms
proof (induction n arbitrary: s d v)
  case 0
  then have "d(name \<mapsto> v) = d" by (simp add: map_upd_triv)
  with 0 show ?case by simp
next
  case (Suc n)
  let ?s' = "s\<lparr>counters := Some (d(name \<mapsto> v + 1))\<rparr>"
  have step: "getNextId name s = (Inr v, ?s')"
    by (rule getNextId_step [of s d name v]) (use Suc.prems in simp_all)
  have rest: "getNextIds n name ?s' =
      (Inr (map (\<lambda>k. (v + 1) + int k) [0..<n]),
       ?s'\<lparr>counters := Some ((d(name \<mapsto> v + 1))(name \<mapsto> (v + 1) + int n))\<rparr>)"
    using Suc.IH [of ?s' "d(name \<mapsto> v + 1)" "v + 1"] Suc.prems
    by (simp add: fun_upd_same del: fun_upd_apply)
  have l: "map (\<lambda>k. v + int k) [0..<Suc n] = v # map (\<lambda>k. (v + 1) + int k) [0..<n]"
    unfolding upt_Suc_shift by (simp add: comp_def add.assoc)
  show ?case
    unfolding l using step rest by (simp add: ac_simps del: fun_upd_apply)
qed

lemma ids_from_one: "map (\<lambda>k. 1 + int k) [0..<n] = map int [1..<Suc n]"
proof -
  have "map int [1..<Suc n] = map int (map Suc [0..<n])"
    by (simp add: map_Suc_upt del: upt_Suc)
  then show ?thesis by (simp add: comp_def)
qed

lemma getNextIds_fresh_field:
  assumes "counters s = Some d" and "d name = None"
  shows "fst (getNextIds n name s) = Inr (map int [1..<Suc n])"
proof (cases n)
  case 0
  then show ?thesis by simp
next
  case (Suc m)
  let ?s' = "s\<lparr>counters := Some (d(name \<mapsto> 2))\<rparr>"
  have step: "getNextId name s = (Inr 1, ?s')"
    by (rule getNextId_absent_field [of s d name]) (use assms in simp_all)
  have rest: "getNextIds m name ?s' =
      (Inr (map (\<lambda>k. 2 + int k) [0..<m]),
       ?s'\<lparr>counters := Some ((d(name \<mapsto> 2))(name \<mapsto> 2 + int m))\<rparr>)"
    using getNextIds_from [of ?s' "d(name \<mapsto> 2)" name 2 m]
    by (simp add: fun_upd_same del: fun_upd_apply)
  have l: "map int [1..<Suc (Suc m)] = 1 # map (\<lambda>k. 2 + int k) [0..<m]"
    unfolding ids_from_one [symmetric] upt_Suc_shift by (simp add: comp_def)
  show ?thesis
    unfolding Suc l using step rest by simp
qed


text \<open>
  Claim C1. Starting from a counters document that was just initialised (the store held
  none before \<open>initializeCounters\<close> ran), \<open>N\<close> calls of \<open>getNextId\<close> for one counter,
  one after the other, all succeed and return \<open>1, 2, ..., N\<close> in this order, a strictly
  increasing sequence without repetition: each call returns the value it read and writes
  back that value plus one. This holds for each of the
  three entity kinds (\<open>userId\<close>, \<open>tradeId\<close>, \<open>collectionId\<close>) and for any other counter
  name as well.
\<close>

theorem getNextId_sequence:
  "fst (getNextIds N counterName (initializeCounters (s\<lparr>counters := None\<rparr>)))
     = Inr (map int [1..<Suc N])
   \<and> sorted_wrt (<) (map int [1..<Suc N]) \<and> distinct (map int [1..<Suc N])"
proof (intro conjI)
  show "sorted_wrt (<) (map int [1..<Suc N])"
    by (simp add: sorted_wrt_map del: upt_Suc)
  show "distinct (map int [1..<Suc N])"
    by (simp add: distinct_map del: upt_Suc)
  show "fst (getNextIds N counterName (initializeCounters (s\<lparr>counters := None\<rparr>)))
     = Inr (map int [1..<Suc N])"
  proof (cases "counterName \<in> {''userId'', ''tradeId'', ''collectionId''}")
    case True
    let ?d = "[''userId'' \<mapsto> 1, ''tradeId'' \<mapsto> 1, ''collectionId'' \<mapsto> (1::int)]"
    have c: "counters (initializeCounters (s\<lparr>counters := None\<rparr>)) = Some ?d"
      by (simp add: initializeCounters_def)
    have v: "?d counterName = Some 1"
      using True by auto
    show ?thesis
      using getNextIds_from [OF c v, of N] by (simp add: ids_from_one)
  next
    case False
    let ?d = "[''userId'' \<mapsto> 1, ''tradeId'' \<mapsto> 1, ''collectionId'' \<mapsto> (1::int)]"
    have c: "counters (initializeCounters (s\<lparr>counters := None\<rparr>)) = Some ?d"
      by (simp add: initializeCounters_def)
    have v: "?d counterName = None"
      using False by auto
    show ?thesis
      using getNextIds_fresh_field [OF c v] .
  qed
qed


section \<open>Properties of the document normalizer\<close>

lemma date_spread_timestamp:
  "data f = Some (JTimestamp sec ns) \<Longrightarrow> date_spread data f = Inr [f \<mapsto> JDate (toDate sec ns)]"
  by (simp add: date_spread_def truthy_opt_def)

lemma date_spread_falsy:
  "\<not> truthy_opt (data f) \<Longrightarrow> date_spread data f = Inr Map.empty"
  by (simp add: date_spread_def)

lemma date_spread_Inr:
  assumes "date_spread data f = Inr m"
  shows "(\<not> truthy_opt (data f) \<and> m = Map.empty) \<or>
         (\<exists>sec ns. data f = Some (JTimestamp sec ns) \<and> m = [f \<mapsto> JDate (toDate sec ns)])"
  using assms
  by (auto simp add: date_spread_def split: if_splits option.splits jsval.splits)

lemma date_spread_ok:
  "date_field_ok data f \<Longrightarrow> \<exists>m. date_spread data f = Inr m"
  by (auto simp add: date_field_ok_def date_spread_def split: option.splits jsval.splits)

lemma date_spread_other:
  "date_spread data f = Inr m \<Longrightarrow> g \<noteq> f \<Longrightarrow> m g = None"
  by (drule date_spread_Inr) auto

lemma convertFirestoreData_Inr:
  assumes "convertFirestoreData doc = Inr (Some r)"
  obtains data c en ex where
    "doc_data doc = Some data"
    "date_spread data ''createdAt'' = Inr c"
    "date_spread data ''entryDate'' = Inr en"
    "date_spread data ''exitDate'' = Inr ex"
    "r = data(''id'' \<mapsto> (if \<not> isNaN (Number (doc_id doc)) then Number (doc_id doc)
                             else JStr (doc_id doc))) ++ c ++ en ++ ex"
  using assms
  by (auto simp add: convertFirestoreData_def Let_def split: if_splits option.splits sum.splits)

lemma convertFirestoreData_total:
  assumes "doc_data doc = Some data" and "date_fields_ok data"
  shows "\<exists>r. convertFirestoreData doc = Inr (Some r)"
proof -
  obtain c where c: "date_spread data ''createdAt'' = Inr c"
    using assms(2) date_spread_ok by (auto simp add: date_fields_ok_def)
  obtain en where en: "date_spread data ''entryDate'' = Inr en"
    using assms(2) date_spread_ok by (auto simp add: date_fields_ok_def)
  obtain ex where ex: "date_spread data ''exitDate'' = Inr ex"
    using assms(2) date_spread_ok by (auto simp add: date_fields_ok_def)
  show ?thesis
    using assms(1) c en ex by (simp add: convertFirestoreData_def doc_exists_def Let_def)
qed

lemma convertFirestoreData_field:
  assumes "convertFirestoreData doc = Inr (Some r)" and "doc_data doc = Some data"
    and "f \<noteq> ''createdAt''" and "f \<noteq> ''entryDate''" and "f \<noteq> ''exitDate''"
  shows "r f = (data(''id'' \<mapsto> (if \<not> isNaN (Number (doc_id doc)) then Number (doc_id doc)
                             else JStr (doc_id doc)))) f"
proof -
  from assms(1) obtain data' c en ex where h:
    "doc_data doc = Some data'"
    "date_spread data' ''createdAt'' = Inr c"
    "date_spread data' ''entryDate'' = Inr en"
    "date_spread data' ''exitDate'' = Inr ex"
    "r = data'(''id'' \<mapsto> (if \<not> isNaN (Number (doc_id doc)) then Number (doc_id doc)
                             else JStr (doc_id doc))) ++ c ++ en ++ ex"
    by (rule convertFirestoreData_Inr)
  have "data' = data" using h(1) assms(2) by simp
  moreover have "c f = None" "en f = None" "ex f = None"
    using h(2,3,4) assms(3,4,5) by (auto dest: date_spread_other)
  ultimately show ?thesis
    using h(5) by (simp add: map_add_def)
qed

lemma spread_lookup:
  assumes "date_spread data ''createdAt'' = Inr c"
    and "date_spread data ''entryDate'' = Inr en"
    and "date_spread data ''exitDate'' = Inr ex"
    and "f \<in> {''createdAt'', ''entryDate'', ''exitDate''}"
    and "date_spread data f = Inr m"
  shows "(data(''id'' \<mapsto> v) ++ c ++ en ++ ex) f = (data ++ m) f"
proof -
  have o: "c ''entryDate'' = None" "c ''exitDate'' = None"
    "en ''createdAt'' = None" "en ''exitDate'' = None"
    "ex ''createdAt'' = None" "ex ''entryDate'' = None"
    using date_spread_other [OF assms(1)] date_spread_other [OF assms(2)]
      date_spread_other [OF assms(3)] by simp_all
  consider "f = ''createdAt''" | "f = ''entryDate''" | "f = ''exitDate''"
    using assms(4) by auto
  then show ?thesis
  proof cases
    case 1
    then have "m = c" using assms(1,5) by simp
    then show ?thesis using 1 o by (simp add: map_add_def split: option.splits)
  next
    case 2
    then have "m = en" using assms(2,5) by simp
    then show ?thesis using 2 o by (simp add: map_add_def split: option.splits)
  next
    case 3
    then have "m = ex" using assms(3,5) by simp
    then show ?thesis using 3 o by (simp add: map_add_def split: option.splits)
  qed
qed

lemma convertFirestoreData_date_spread:
  assumes "convertFirestoreData doc = Inr (Some r)" and "doc_data doc = Some data"
    and "f \<in> {''createdAt'', ''entryDate'', ''exitDate''}"
  shows "\<exists>m. date_spread data f = Inr m \<and> r f = (data ++ m) f"
proof -
  from assms(1) obtain data' c en ex where h:
    "doc_data doc = Some data'"
    "date_spread data' ''createdAt'' = Inr c"
    "date_spread data' ''entryDate'' = Inr en"
    "date_spread data' ''exitDate'' = Inr ex"
    "r = data'(''id'' \<mapsto> (if \<not> isNaN (Number (doc_id doc)) then Number (doc_id doc)
                             else JStr (doc_id doc))) ++ c ++ en ++ ex"
    by (rule convertFirestoreData_Inr)
  have d: "data' = data" using h(1) assms(2) by simp
  obtain m where m: "date_spread data f = Inr m"
    using assms(3) h(2,3,4) unfolding d by auto
  have "r f = (data ++ m) f"
    unfolding h(5) d using h(2,3,4) assms(3) m unfolding d by (rule spread_lookup)
  with m show ?thesis by blast
qed

lemma convertFirestoreData_timestamp_field:
  assumes "convertFirestoreData doc = Inr (Some r)" and "doc_data doc = Some data"
    and "f \<in> {''createdAt'', ''entryDate'', ''exitDate''}"
    and "data f = Some (JTimestamp sec ns)"
  shows "r f = Some (JDate (toDate sec ns))"
proof -
  obtain m where m: "date_spread data f = Inr m" "r f = (data ++ m) f"
    using convertFirestoreData_date_spread [OF assms(1,2,3)] by blast
  have "m = [f \<mapsto> JDate (toDate sec ns)]"
    using m(1) date_spread_timestamp [of data f sec ns] assms(4) by simp
  then show ?thesis using m(2) by simp
qed

lemma convertFirestoreData_falsy_field:
  assumes "convertFirestoreData doc = Inr (Some r)" and "doc_data doc = Some data"
    and "f \<in> {''createdAt'', ''entryDate'', ''exitDate''}"
    and "\<not> truthy_opt (data f)"
  shows "r f = data f"
proof -
  obtain m where m: "date_spread data f = Inr m" "r f = (data ++ m) f"
    using convertFirestoreData_date_spread [OF assms(1,2,3)] by blast
  have "m = Map.empty"
    using m(1) date_spread_falsy [of data f] assms(4) by simp
  then show ?thesis using m(2) by simp
qed

lemma Number_examples:
  "Number ''42'' = JNum 42" "Number ''abc'' = JNaN" "Number ''1'' = JNum 1"
  by code_simp+

text \<open>
  Claim C3. For a stored document with any payload and any key, the record returned by the
  normalizer has as its \<open>id\<close> the number \<open>Number(key)\<close> when that coercion is not
  \<open>NaN\<close>, and the key string itself otherwise, whatever \<open>id\<close> field the payload holds:
  key \<open>"42"\<close> gives the number 42 and key \<open>"abc"\<close> the string \<open>"abc"\<close>. The normalizer
  does return a record when the three date fields of the payload are well formed.
\<close>

theorem normalize_identifier:
  assumes "doc_data doc = Some data"
  shows "(date_fields_ok data \<longrightarrow> (\<exists>r. convertFirestoreData doc = Inr (Some r))) \<and>
         (\<forall>r. convertFirestoreData doc = Inr (Some r) \<longrightarrow>
              r ''id'' = Some (if Number (doc_id doc) = JNaN then JStr (doc_id doc)
                               else Number (doc_id doc))) \<and>
         (\<forall>r. convertFirestoreData (doc\<lparr>doc_id := ''42''\<rparr>) = Inr (Some r) \<longrightarrow>
              r ''id'' = Some (JNum 42)) \<and>
         (\<forall>r. convertFirestoreData (doc\<lparr>doc_id := ''abc''\<rparr>) = Inr (Some r) \<longrightarrow>
              r ''id'' = Some (JStr ''abc''))"
proof -
  have general: "r ''id'' = Some (if Number (doc_id d) = JNaN then JStr (doc_id d)
                                   else Number (doc_id d))"
    if "convertFirestoreData d = Inr (Some r)" and "doc_data d = Some data" for d r
    using convertFirestoreData_field [OF that, of "''id''"] by (simp add: isNaN_def)
  have a: "date_fields_ok data \<longrightarrow> (\<exists>r. convertFirestoreData doc = Inr (Some r))"
    using convertFirestoreData_total [OF assms] by blast
  have b: "\<forall>r. convertFirestoreData doc = Inr (Some r) \<longrightarrow>
              r ''id'' = Some (if Number (doc_id doc) = JNaN then JStr (doc_id doc)
                               else Number (doc_id doc))"
    using general assms by blast
  have c: "\<forall>r. convertFirestoreData (doc\<lparr>doc_id := ''42''\<rparr>) = Inr (Some r) \<longrightarrow>
              r ''id'' = Some (JNum 42)"
    using general [of "doc\<lparr>doc_id := ''42''\<rparr>"] assms by (simp add: Number_examples)
  have d: "\<forall>r. convertFirestoreData (doc\<lparr>doc_id := ''abc''\<rparr>) = Inr (Some r) \<longrightarrow>
              r ''id'' = Some (JStr ''abc'')"
    using general [of "doc\<lparr>doc_id := ''abc''\<rparr>"] assms by (simp add: Number_examples)
  show ?thesis using a b c d by blast
qed

text \<open>
  Claim C7, as amended. For each of \<open>createdAt\<close>, \<open>entryDate\<close> and \<open>exitDate\<close>: a field
  that holds a provider timestamp is converted into a native date; a field that is absent
  from the payload is absent from the output; a field that is present with a falsy value
  (\<open>null\<close>, \<open>0\<close>, the empty string, \<open>false\<close>, \<open>NaN\<close>) is passed through unchanged, not
  converted. The normalizer returns a record when the three date fields are well formed.
\<close>

theorem normalize_date_fields:
  assumes "doc_data doc = Some data" and "f \<in> {''createdAt'', ''entryDate'', ''exitDate''}"
  shows "(date_fields_ok data \<longrightarrow> (\<exists>r. convertFirestoreData doc = Inr (Some r))) \<and>
         (\<forall>r. convertFirestoreData doc = Inr (Some r) \<longrightarrow>
            (\<forall>sec ns. data f = Some (JTimestamp sec ns) \<longrightarrow> r f = Some (JDate (toDate sec ns))) \<and>
            (data f = None \<longrightarrow> r f = None) \<and>
            (\<forall>v. data f = Some v \<and> \<not> truthy v \<longrightarrow> r f = Some v))"
proof -
  have a: "date_fields_ok data \<longrightarrow> (\<exists>r. convertFirestoreData doc = Inr (Some r))"
    using convertFirestoreData_total [OF assms(1)] by blast
  have b: "r f = Some (JDate (toDate sec ns))"
    if "convertFirestoreData doc = Inr (Some r)" and "data f = Some (JTimestamp sec ns)"
    for r sec ns
    using convertFirestoreData_timestamp_field [OF that(1) assms that(2)] .
  have c: "r f = data f"
    if "convertFirestoreData doc = Inr (Some r)" and "\<not> truthy_opt (data f)" for r
    using convertFirestoreData_falsy_field [OF that(1) assms that(2)] .
  have c1: "r f = None" if "convertFirestoreData doc = Inr (Some r)" and "data f = None" for r
    using c [OF that(1)] that(2) by (simp add: truthy_opt_def)
  have c2: "r f = Some v"
    if "convertFirestoreData doc = Inr (Some r)" and "data f = Some v" and "\<not> truthy v" for r v
    using c [OF that(1)] that(2,3) by (simp add: truthy_opt_def)
  show ?thesis using a b c1 c2 by blast
qed

text \<open>
  Claim C7 as stated fails for a field that is present but \<open>null\<close>: the guard
  \<open>data.exitDate && ...\<close> skips the conversion, and the field reaches the output as
  \<open>null\<close>, not as a date. The document below is an open trade without exit date.
\<close>

theorem normalize_null_date_counterexample:
  "convertFirestoreData \<lparr>doc_id = ''1'', doc_data = Some [''exitDate'' \<mapsto> JNull]\<rparr>
     = Inr (Some [''exitDate'' \<mapsto> JNull, ''id'' \<mapsto> JNum 1])"
  by (simp add: convertFirestoreData_def doc_exists_def date_spread_def truthy_opt_def
      isNaN_def Number_examples)

lemma convertCollectionDoc_exists:
  assumes "doc_exists doc"
  shows "map_sum (\<lambda>e. e) Some (convertCollectionDoc doc) = convertFirestoreData doc"
  using assms
  by (auto simp add: convertCollectionDoc_def convertFirestoreData_def doc_exists_def Let_def
      split: sum.splits)

lemma map_throwing_refines:
  assumes "\<forall>x \<in> set xs. map_sum (\<lambda>e. e) Some (g x) = f x"
  shows "map_sum (\<lambda>e. e) (map Some) (map_throwing g xs) = map_throwing f xs"
  using assms
proof (induction xs)
  case Nil
  then show ?case by simp
next
  case (Cons x xs)
  have x: "map_sum (\<lambda>e. e) Some (g x) = f x" using Cons.prems by simp
  have xs: "map_sum (\<lambda>e. e) (map Some) (map_throwing g xs) = map_throwing f xs"
    using Cons by simp
  show ?case
  proof (cases "g x")
    case (Inl e)
    then show ?thesis using x by (auto split: sum.splits)
  next
    case (Inr y)
    then have fx: "f x = Inr (Some y)" using x by auto
    show ?thesis
      using Inr fx xs by (cases "map_throwing g xs") (auto split: sum.splits)
  qed
qed

text \<open>
  Claim C8. On a query result set (all of whose documents exist), the collection variant
  returns exactly what applying the single-document transform to each document in order
  returns, including the first exception if one is thrown; on the empty result set it
  returns the empty list.
\<close>

theorem convertFirestoreCollection_maps_convertFirestoreData:
  assumes "\<forall>doc \<in> set docs. doc_exists doc"
  shows "map_sum (\<lambda>e. e) (map Some) (convertFirestoreCollection docs)
           = map_throwing convertFirestoreData docs
         \<and> convertFirestoreCollection [] = Inr []"
proof -
  have "map_sum (\<lambda>e. e) (map Some) (map_throwing convertCollectionDoc docs)
          = map_throwing convertFirestoreData docs"
    using assms by (intro map_throwing_refines) (simp add: convertCollectionDoc_exists)
  then show ?thesis
    by (cases docs) (simp_all add: convertFirestoreCollection_def)
qed


section \<open>Properties of the record store\<close>

text \<open>
  Claim C2. When no document is stored under the string form of the identifier,
  \<open>updateTrade\<close>, \<open>updateCollection\<close>, \<open>updateUserPlan\<close> and \<open>updateUserStripeInfo\<close>
  each reject with their not-found error and leave the store as it was.
\<close>

theorem update_nonexistent_not_found:
  "(trades s (toString i) = None \<longrightarrow>
      updateTrade i tradeUpdate s = (Inl (Error ''Trade not found''), s)) \<and>
   (collections s (toString i) = None \<longrightarrow>
      updateCollection i collectionUpdate s = (Inl (Error ''Collection not found''), s)) \<and>
   (users s (toString i) = None \<longrightarrow>
      updateUserPlan i planType s = (Inl (Error ''User not found''), s)) \<and>
   (users s (toString i) = None \<longrightarrow>
      updateUserStripeInfo i customerId subscriptionId s = (Inl (Error ''User not found''), s))"
  by (simp add: updateTrade_def updateCollection_def updateUserPlan_def
      updateUserStripeInfo_def doc_get_def doc_exists_def)

lemma convertFirestoreData_absent:
  "convertFirestoreData \<lparr>doc_id = k, doc_data = None\<rparr> = Inr None"
  by (simp add: convertFirestoreData_def doc_exists_def)

text \<open>
  Claim C4. \<open>deleteTrade\<close> and \<open>deleteCollection\<close> resolve to \<open>false\<close>, without an
  error and without touching the store, when the identifier has no document; when it has
  one they remove exactly that document and resolve to \<open>true\<close>, and a get of the same
  identifier afterwards finds nothing.
\<close>

theorem delete_by_identifier:
  "(trades s (toString i) = None \<longrightarrow> deleteTrade i s = (Inr False, s)) \<and>
   (trades s (toString i) \<noteq> None \<longrightarrow>
      deleteTrade i s = (Inr True, s\<lparr>trades := (trades s)(toString i := None)\<rparr>) \<and>
      getTrade i (snd (deleteTrade i s)) = Inr None) \<and>
   (collections s (toString i) = None \<longrightarrow> deleteCollection i s = (Inr False, s)) \<and>
   (collections s (toString i) \<noteq> None \<longrightarrow>
      deleteCollection i s = (Inr True, s\<lparr>collections := (collections s)(toString i := None)\<rparr>) \<and>
      getCollection i (snd (deleteCollection i s)) = Inr None)"
  by (auto simp add: deleteTrade_def deleteCollection_def getTrade_def getCollection_def
      doc_get_def doc_exists_def doc_delete_def convertFirestoreData_absent Let_def)

text \<open>
  A trade stored by \<open>createTrade\<close> from a payload with typed entry and exit dates has
  well-formed date fields, so the updates and reads below apply to it.
\<close>

lemma to_document_date_field_ok:
  "date_field_typed r f \<Longrightarrow> date_field_ok (to_document r) f"
  by (auto simp add: date_field_typed_def date_field_ok_def to_document_def truthy_opt_def
      split: option.splits jsval.splits)

lemma createTrade_dates_ok:
  assumes "getNextId ''tradeId'' s = (Inr i, s1)"
    and "date_field_typed insertTrade ''entryDate''"
    and "date_field_typed insertTrade ''exitDate''"
  shows "\<exists>stored. trades (snd (createTrade insertTrade now s)) (toString i) = Some stored
           \<and> date_fields_ok stored"
proof -
  let ?trade = "insertTrade(''id'' \<mapsto> JNum (of_int i), ''createdAt'' \<mapsto> JDate now,
                  ''notes'' \<mapsto> or_null (insertTrade ''notes''),
                  ''collectionId'' \<mapsto> or_null (insertTrade ''collectionId''))"
  have run: "trades (snd (createTrade insertTrade now s)) (toString i) = Some (to_document ?trade)"
    using assms(1) by (simp add: createTrade_def doc_set_def Let_def)
  have "date_field_typed ?trade ''createdAt''" "date_field_typed ?trade ''entryDate''"
    "date_field_typed ?trade ''exitDate''"
    using assms(2,3) by (simp_all add: date_field_typed_def)
  then have "date_fields_ok (to_document ?trade)"
    unfolding date_fields_ok_def by (intro conjI to_document_date_field_ok)
  with run show ?thesis by blast
qed

lemma date_spread_cong:
  "data f = data' f \<Longrightarrow> date_spread data f = date_spread data' f"
  by (simp add: date_spread_def)

lemma convertFirestoreData_pointwise:
  assumes "convertFirestoreData doc = Inr (Some r)" and "doc_data doc = Some data"
    and "convertFirestoreData doc' = Inr (Some r')" and "doc_data doc' = Some data'"
    and "doc_id doc = doc_id doc'" and "data f = data' f"
  shows "r f = r' f"
proof (cases "f \<in> {''createdAt'', ''entryDate'', ''exitDate''}")
  case True
  obtain m where m: "date_spread data f = Inr m" "r f = (data ++ m) f"
    using convertFirestoreData_date_spread [OF assms(1,2) True] by blast
  obtain m' where m': "date_spread data' f = Inr m'" "r' f = (data' ++ m') f"
    using convertFirestoreData_date_spread [OF assms(3,4) True] by blast
  have "m = m'"
    using m(1) m'(1) date_spread_cong [of data f data'] assms(6) by simp
  then show ?thesis
    using m(2) m'(2) assms(6) by (simp add: map_add_def split: option.splits)
next
  case False
  then have n: "f \<noteq> ''createdAt''" "f \<noteq> ''entryDate''" "f \<noteq> ''exitDate''" by auto
  show ?thesis
    using convertFirestoreData_field [OF assms(1,2) n]
      convertFirestoreData_field [OF assms(3,4) n] assms(5,6)
    by simp
qed

lemma date_fields_ok_notes:
  "date_fields_ok old \<Longrightarrow> date_fields_ok (old(''notes'' \<mapsto> v))"
  by (simp add: date_fields_ok_def date_field_ok_def)

text \<open>
  The partial update on a well-formed document: for a stored trade whose date fields are
  well formed, \<open>updateTrade(id, {notes: x})\<close> succeeds, replaces in the store the
  \<open>notes\<close> field of that document and nothing else, and returns a record whose \<open>notes\<close>
  is \<open>x\<close> and whose every other field is what a get of the trade returned before the
  update.
\<close>

lemma updateTrade_notes_well_formed:
  assumes "trades s (toString i) = Some old" and "date_fields_ok old"
  shows "\<exists>r r0. getTrade i s = Inr (Some r0) \<and>
           updateTrade i [''notes'' \<mapsto> JStr x] s =
             (Inr r, s\<lparr>trades := (trades s)(toString i \<mapsto> old(''notes'' \<mapsto> JStr x))\<rparr>) \<and>
           r ''notes'' = Some (JStr x) \<and>
           (\<forall>f. f \<noteq> ''notes'' \<longrightarrow> r f = r0 f)"
proof -
  let ?k = "toString i"
  let ?new = "old(''notes'' \<mapsto> JStr x)"
  let ?doc0 = "\<lparr>doc_id = ?k, doc_data = Some old\<rparr>"
  let ?doc1 = "\<lparr>doc_id = ?k, doc_data = Some ?new\<rparr>"
  obtain r0 where r0: "convertFirestoreData ?doc0 = Inr (Some r0)"
    using convertFirestoreData_total [of ?doc0 old] assms(2) by auto
  obtain r where r: "convertFirestoreData ?doc1 = Inr (Some r)"
    using convertFirestoreData_total [of ?doc1 ?new] date_fields_ok_notes [OF assms(2)] by auto
  have upd: "doc_update (trades s) ?k [''notes'' \<mapsto> JStr x] = Inr ((trades s)(?k \<mapsto> ?new))"
  proof -
    have "[''notes'' \<mapsto> JStr x] \<noteq> Map.empty" by simp
    moreover have "old ++ to_document [''notes'' \<mapsto> JStr x] = ?new"
      by (rule ext) (simp add: to_document_def map_add_def)
    ultimately show ?thesis using assms(1) by (simp add: doc_update_def)
  qed
  have get: "getTrade i s = Inr (Some r0)"
    using assms(1) r0 by (simp add: getTrade_def doc_get_def)
  have run: "updateTrade i [''notes'' \<mapsto> JStr x] s =
               (Inr r, s\<lparr>trades := (trades s)(?k \<mapsto> ?new)\<rparr>)"
    using assms(1) upd r by (simp add: updateTrade_def doc_get_def doc_exists_def Let_def)
  have nts: "r ''notes'' = Some (JStr x)"
    using convertFirestoreData_field [OF r, of ?new "''notes''"] by simp
  have frame: "r f = r0 f" if "f \<noteq> ''notes''" for f
    using convertFirestoreData_pointwise [OF r _ r0, of ?new old f] that by simp
  show ?thesis using get run nts frame by blast
qed

lemma createUser_run:
  assumes "getNextId ''userId'' s = (Inr i, s1)"
  shows "createUser insertUser now s =
           (Inr (insertUser(''id'' \<mapsto> JNum (of_int i), ''createdAt'' \<mapsto> JDate now,
                            ''stripeCustomerId'' \<mapsto> JNull, ''stripeSubscriptionId'' \<mapsto> JNull,
                            ''planType'' \<mapsto> JStr ''free'',
                            ''avatar'' \<mapsto> or_null (insertUser ''avatar''))),
            s1\<lparr>users := (users s1)(toString i \<mapsto>
               to_document (insertUser(''id'' \<mapsto> JNum (of_int i), ''createdAt'' \<mapsto> JDate now,
                            ''stripeCustomerId'' \<mapsto> JNull, ''stripeSubscriptionId'' \<mapsto> JNull,
                            ''planType'' \<mapsto> JStr ''free'',
                            ''avatar'' \<mapsto> or_null (insertUser ''avatar''))))\<rparr>)"
  using assms by (simp add: createUser_def doc_set_def Let_def)

lemma createTrade_run:
  assumes "getNextId ''tradeId'' s = (Inr i, s1)"
  shows "createTrade insertTrade now s =
           (Inr (insertTrade(''id'' \<mapsto> JNum (of_int i), ''createdAt'' \<mapsto> JDate now,
                             ''notes'' \<mapsto> or_null (insertTrade ''notes''),
                             ''collectionId'' \<mapsto> or_null (insertTrade ''collectionId''))),
            s1\<lparr>trades := (trades s1)(toString i \<mapsto>
               to_document (insertTrade(''id'' \<mapsto> JNum (of_int i), ''createdAt'' \<mapsto> JDate now,
                             ''notes'' \<mapsto> or_null (insertTrade ''notes''),
                             ''collectionId'' \<mapsto> or_null (insertTrade ''collectionId''))))\<rparr>)"
  using assms by (simp add: createTrade_def doc_set_def Let_def)

lemma createCollection_run:
  assumes "getNextId ''collectionId'' s = (Inr i, s1)"
  shows "createCollection insertCollection now s =
           (Inr (insertCollection(''id'' \<mapsto> JNum (of_int i), ''createdAt'' \<mapsto> JDate now,
                   ''description'' \<mapsto> or_null (insertCollection ''description''))),
            s1\<lparr>collections := (collections s1)(toString i \<mapsto>
               to_document (insertCollection(''id'' \<mapsto> JNum (of_int i),
                   ''createdAt'' \<mapsto> JDate now,
                   ''description'' \<mapsto> or_null (insertCollection ''description''))))\<rparr>)"
  using assms by (simp add: createCollection_def doc_set_def Let_def)

text \<open>
  Claim C5. When the allocator hands out identifier \<open>i\<close>, each create operation returns
  the record it has built and stores that record (dates as timestamps) under the string
  form of \<open>i\<close>. The record is determined field by field: \<open>id = i\<close>; the creation time;
  for an account, plan \<open>free\<close> and \<open>null\<close> Stripe references; each defaulted field
  (\<open>avatar\<close> of an account, \<open>notes\<close> and \<open>collectionId\<close> of a trade, \<open>description\<close> of a
  collection) is \<open>null\<close> when the payload does not supply it, is the supplied value when
  that value is truthy, and is \<open>null\<close> when the supplied value is falsy; every other field
  is the payload's.
\<close>

theorem create_operations:
  "(getNextId ''userId'' s = (Inr i, s1) \<longrightarrow>
      (\<exists>user. createUser insertUser now s =
                 (Inr user, s1\<lparr>users := (users s1)(toString i \<mapsto> to_document user)\<rparr>) \<and>
         user ''id'' = Some (JNum (of_int i)) \<and>
         user ''createdAt'' = Some (JDate now) \<and>
         user ''planType'' = Some (JStr ''free'') \<and>
         user ''stripeCustomerId'' = Some JNull \<and>
         user ''stripeSubscriptionId'' = Some JNull \<and>
         (insertUser ''avatar'' = None \<longrightarrow> user ''avatar'' = Some JNull) \<and>
         (truthy_opt (insertUser ''avatar'') \<longrightarrow> user ''avatar'' = insertUser ''avatar'') \<and>
         (\<not> truthy_opt (insertUser ''avatar'') \<longrightarrow> user ''avatar'' = Some JNull) \<and>
         (\<forall>f. f \<notin> {''id'', ''createdAt'', ''stripeCustomerId'', ''stripeSubscriptionId'',
                    ''planType'', ''avatar''} \<longrightarrow> user f = insertUser f))) \<and>
   (getNextId ''tradeId'' s = (Inr i, s1) \<longrightarrow>
      (\<exists>trade. createTrade insertTrade now s =
                 (Inr trade, s1\<lparr>trades := (trades s1)(toString i \<mapsto> to_document trade)\<rparr>) \<and>
         trade ''id'' = Some (JNum (of_int i)) \<and>
         trade ''createdAt'' = Some (JDate now) \<and>
         (insertTrade ''notes'' = None \<longrightarrow> trade ''notes'' = Some JNull) \<and>
         (truthy_opt (insertTrade ''notes'') \<longrightarrow> trade ''notes'' = insertTrade ''notes'') \<and>
         (\<not> truthy_opt (insertTrade ''notes'') \<longrightarrow> trade ''notes'' = Some JNull) \<and>
         (insertTrade ''collectionId'' = None \<longrightarrow> trade ''collectionId'' = Some JNull) \<and>
         (truthy_opt (insertTrade ''collectionId'') \<longrightarrow> trade ''collectionId'' = insertTrade ''collectionId'') \<and>
         (\<not> truthy_opt (insertTrade ''collectionId'') \<longrightarrow> trade ''collectionId'' = Some JNull) \<and>
         (\<forall>f. f \<notin> {''id'', ''createdAt'', ''notes'', ''collectionId''} \<longrightarrow>
                trade f = insertTrade f))) \<and>
   (getNextId ''collectionId'' s = (Inr i, s1) \<longrightarrow>
      (\<exists>collection. createCollection insertCollection now s =
                 (Inr collection,
                  s1\<lparr>collections := (collections s1)(toString i \<mapsto> to_document collection)\<rparr>) \<and>
         collection ''id'' = Some (JNum (of_int i)) \<and>
         collection ''createdAt'' = Some (JDate now) \<and>
         (insertCollection ''description'' = None \<longrightarrow> collection ''description'' = Some JNull) \<and>
         (truthy_opt (insertCollection ''description'') \<longrightarrow> collection ''description'' = insertCollection ''description'') \<and>
         (\<not> truthy_opt (insertCollection ''description'') \<longrightarrow> collection ''description'' = Some JNull) \<and>
         (\<forall>f. f \<notin> {''id'', ''createdAt'', ''description''} \<longrightarrow>
                collection f = insertCollection f)))"
proof (intro conjI impI)
  assume "getNextId ''userId'' s = (Inr i, s1)"
  from createUser_run [OF this, of insertUser now]
  show "\<exists>user. createUser insertUser now s =
                 (Inr user, s1\<lparr>users := (users s1)(toString i \<mapsto> to_document user)\<rparr>) \<and>
         user ''id'' = Some (JNum (of_int i)) \<and>
         user ''createdAt'' = Some (JDate now) \<and>
         user ''planType'' = Some (JStr ''free'') \<and>
         user ''stripeCustomerId'' = Some JNull \<and>
         user ''stripeSubscriptionId'' = Some JNull \<and>
         (insertUser ''avatar'' = None \<longrightarrow> user ''avatar'' = Some JNull) \<and>
         (truthy_opt (insertUser ''avatar'') \<longrightarrow> user ''avatar'' = insertUser ''avatar'') \<and>
         (\<not> truthy_opt (insertUser ''avatar'') \<longrightarrow> user ''avatar'' = Some JNull) \<and>
         (\<forall>f. f \<notin> {''id'', ''createdAt'', ''stripeCustomerId'', ''stripeSubscriptionId'',
                    ''planType'', ''avatar''} \<longrightarrow> user f = insertUser f)"
    by (auto simp add: or_null_def truthy_opt_def split: option.splits)
next
  assume "getNextId ''tradeId'' s = (Inr i, s1)"
  from createTrade_run [OF this, of insertTrade now]
  show "\<exists>trade. createTrade insertTrade now s =
                 (Inr trade, s1\<lparr>trades := (trades s1)(toString i \<mapsto> to_document trade)\<rparr>) \<and>
         trade ''id'' = Some (JNum (of_int i)) \<and>
         trade ''createdAt'' = Some (JDate now) \<and>
         (insertTrade ''notes'' = None \<longrightarrow> trade ''notes'' = Some JNull) \<and>
         (truthy_opt (insertTrade ''notes'') \<longrightarrow> trade ''notes'' = insertTrade ''notes'') \<and>
         (\<not> truthy_opt (insertTrade ''notes'') \<longrightarrow> trade ''notes'' = Some JNull) \<and>
         (insertTrade ''collectionId'' = None \<longrightarrow> trade ''collectionId'' = Some JNull) \<and>
         (truthy_opt (insertTrade ''collectionId'') \<longrightarrow> trade ''collectionId'' = insertTrade ''collectionId'') \<and>
         (\<not> truthy_opt (insertTrade ''collectionId'') \<longrightarrow> trade ''collectionId'' = Some JNull) \<and>
         (\<forall>f. f \<notin> {''id'', ''createdAt'', ''notes'', ''collectionId''} \<longrightarrow>
                trade f = insertTrade f)"
    by (auto simp add: or_null_def truthy_opt_def split: option.splits)
next
  assume "getNextId ''collectionId'' s = (Inr i, s1)"
  from createCollection_run [OF this, of insertCollection now]
  show "\<exists>collection. createCollection insertCollection now s =
                 (Inr collection,
                  s1\<lparr>collections := (collections s1)(toString i \<mapsto> to_document collection)\<rparr>) \<and>
         collection ''id'' = Some (JNum (of_int i)) \<and>
         collection ''createdAt'' = Some (JDate now) \<and>
         (insertCollection ''description'' = None \<longrightarrow> collection ''description'' = Some JNull) \<and>
         (truthy_opt (insertCollection ''description'') \<longrightarrow> collection ''description'' = insertCollection ''description'') \<and>
         (\<not> truthy_opt (insertCollection ''description'') \<longrightarrow> collection ''description'' = Some JNull) \<and>
         (\<forall>f. f \<notin> {''id'', ''createdAt'', ''description''} \<longrightarrow>
                collection f = insertCollection f)"
    by (auto simp add: or_null_def truthy_opt_def split: option.splits)
qed

text \<open>
  Claim C10. Whatever the insert payload holds, the account that \<open>createUser\<close> returns and
  the document it stores have plan \<open>free\<close> and \<open>null\<close> Stripe customer and subscription
  references: values supplied for these fields are overridden. A truthy avatar is kept.
\<close>

theorem createUser_overrides_plan_and_stripe:
  assumes "getNextId ''userId'' s = (Inr i, s1)"
  shows "\<exists>user s' stored. createUser insertUser now s = (Inr user, s') \<and>
           users s' (toString i) = Some stored \<and>
           user ''planType'' = Some (JStr ''free'') \<and>
           user ''stripeCustomerId'' = Some JNull \<and>
           user ''stripeSubscriptionId'' = Some JNull \<and>
           stored ''planType'' = Some (JStr ''free'') \<and>
           stored ''stripeCustomerId'' = Some JNull \<and>
           stored ''stripeSubscriptionId'' = Some JNull \<and>
           (truthy_opt (insertUser ''avatar'') \<longrightarrow>
              user ''avatar'' = insertUser ''avatar'' \<and>
              stored ''avatar'' = map_option to_firestore (insertUser ''avatar''))"
  using createUser_run [OF assms, of insertUser now]
  by (auto simp add: or_null_def to_document_def truthy_opt_def split: option.splits)



section \<open>Concrete instances\<close>

lemma toString_examples:
  "toString 1 = ''1''" "toString 2 = ''2''" "toString 4 = ''4''" "toString 5 = ''5''"
  "toString 7 = ''7''" "toString 9 = ''9''"
  by code_simp+

lemma Number_more_examples:
  "Number ''4'' = JNum 4" "Number ''7'' = JNum 7"
  by code_simp+

lemma example_store_simps:
  "counters example_store = Some [''userId'' \<mapsto> 2, ''tradeId'' \<mapsto> 5, ''collectionId'' \<mapsto> 2]"
  "users example_store = [''1'' \<mapsto> example_user]"
  "trades example_store = [''4'' \<mapsto> example_trade]"
  "collections example_store = [''1'' \<mapsto> example_collection]"
  by (simp_all add: example_store_def)

lemma example_dates_ok:
  "date_fields_ok example_trade" "date_fields_ok example_user" "date_fields_ok example_collection"
  by (simp_all add: date_fields_ok_def date_field_ok_def truthy_opt_def example_trade_def
      example_user_def example_collection_def)

theorem getNextId_sequence_witness:
  "fst (getNextIds 3 ''tradeId'' (initializeCounters (example_store\<lparr>counters := None\<rparr>)))
     = Inr [1, 2, 3]"
  using getNextId_sequence [of 3 "''tradeId''" example_store, THEN conjunct1]
  by (simp add: upt_rec)


theorem delete_by_identifier_witness:
  "trades example_store (toString 9) = None \<and>
   deleteTrade 9 example_store = (Inr False, example_store) \<and>
   trades example_store (toString 4) \<noteq> None \<and>
   deleteTrade 4 example_store =
     (Inr True, example_store\<lparr>trades := (trades example_store)(toString 4 := None)\<rparr>) \<and>
   getTrade 4 (snd (deleteTrade 4 example_store)) = Inr None \<and>
   collections example_store (toString 9) = None \<and>
   deleteCollection 9 example_store = (Inr False, example_store) \<and>
   collections example_store (toString 1) \<noteq> None \<and>
   deleteCollection 1 example_store =
     (Inr True, example_store\<lparr>collections := (collections example_store)(toString 1 := None)\<rparr>) \<and>
   getCollection 1 (snd (deleteCollection 1 example_store)) = Inr None"
proof -
  have h: "trades example_store (toString 9) = None" "trades example_store (toString 4) \<noteq> None"
    "collections example_store (toString 9) = None"
    "collections example_store (toString 1) \<noteq> None"
    by (simp_all add: example_store_simps toString_examples)
  note a = delete_by_identifier [of example_store 9]
    and b = delete_by_identifier [of example_store 4]
    and c = delete_by_identifier [of example_store 1]
  note f1 = a [THEN conjunct1, THEN mp, OF h(1)]
    and f2 = b [THEN conjunct2, THEN conjunct1, THEN mp, OF h(2)]
    and f3 = a [THEN conjunct2, THEN conjunct2, THEN conjunct1, THEN mp, OF h(3)]
    and f4 = c [THEN conjunct2, THEN conjunct2, THEN conjunct2, THEN mp, OF h(4)]
  show ?thesis
    using h f1 f2 f3 f4 by (intro conjI) (erule conjE | assumption)+
qed


text \<open>
  Claim C6. The claim does not hold on every existing trade. \<open>updateTrade\<close> writes
  whatever update it is given, and the route that serves \<open>PUT /api/trades/:id\<close> hands it
  the request body as it came (the route that creates a trade validates its body first).
  After an update that sets \<open>exitDate\<close> to a string, first run below, the stored trade
  has a date field that is not a timestamp. From then on \<open>updateTrade(4, {notes: "x"})\<close>,
  second run below, writes the notes and then throws from the re-read, where the
  normalizer calls \<open>toDate\<close> on the string: the caller gets a \<open>TypeError\<close> and no record,
  and the write stays.
\<close>

theorem updateTrade_notes_throws_after_write:
  "updateTrade 4 [''exitDate'' \<mapsto> JStr ''soon''] example_store =
     (Inl (TypeError ''data.exitDate.toDate is not a function''),
      example_store\<lparr>trades :=
        (trades example_store)(''4'' \<mapsto> example_trade(''exitDate'' \<mapsto> JStr ''soon''))\<rparr>) \<and>
   updateTrade 4 [''notes'' \<mapsto> JStr ''x'']
     (example_store\<lparr>trades :=
        (trades example_store)(''4'' \<mapsto> example_trade(''exitDate'' \<mapsto> JStr ''soon''))\<rparr>) =
     (Inl (TypeError ''data.exitDate.toDate is not a function''),
      example_store\<lparr>trades :=
        (trades example_store)(''4'' \<mapsto>
           example_trade(''exitDate'' \<mapsto> JStr ''soon'', ''notes'' \<mapsto> JStr ''x''))\<rparr>)"
proof -
  let ?bad = "example_trade(''exitDate'' \<mapsto> JStr ''soon'')"
  let ?bad' = "example_trade(''exitDate'' \<mapsto> JStr ''soon'', ''notes'' \<mapsto> JStr ''x'')"
  have h: "trades example_store ''4'' = Some example_trade"
    by (simp add: example_store_simps)
  have m1: "example_trade ++ to_document [''exitDate'' \<mapsto> JStr ''soon''] = ?bad"
    by (rule ext) (simp add: to_document_def map_add_def)
  have m2: "?bad ++ to_document [''notes'' \<mapsto> JStr ''x''] = ?bad'"
    by (rule ext) (simp add: to_document_def map_add_def)
  have c: "date_spread ?bad ''createdAt'' = Inr [''createdAt'' \<mapsto> JDate (toDate 1700000000 0)]"
    "date_spread ?bad' ''createdAt'' = Inr [''createdAt'' \<mapsto> JDate (toDate 1700000000 0)]"
    by (simp_all add: date_spread_timestamp example_trade_def)
  have e: "date_spread ?bad ''entryDate''
             = Inr [''entryDate'' \<mapsto> JDate (toDate 1700000100 250000000)]"
    "date_spread ?bad' ''entryDate''
             = Inr [''entryDate'' \<mapsto> JDate (toDate 1700000100 250000000)]"
    by (simp_all add: date_spread_timestamp example_trade_def)
  have x: "date_spread ?bad ''exitDate''
             = Inl (TypeError ''data.exitDate.toDate is not a function'')"
    "date_spread ?bad' ''exitDate''
             = Inl (TypeError ''data.exitDate.toDate is not a function'')"
    by (simp_all add: date_spread_def truthy_opt_def)
  have n1: "convertFirestoreData \<lparr>doc_id = ''4'', doc_data = Some ?bad\<rparr>
              = Inl (TypeError ''data.exitDate.toDate is not a function'')"
    by (simp add: convertFirestoreData_def doc_exists_def Let_def c(1) e(1) x(1))
  have n2: "convertFirestoreData \<lparr>doc_id = ''4'', doc_data = Some ?bad'\<rparr>
              = Inl (TypeError ''data.exitDate.toDate is not a function'')"
    by (simp add: convertFirestoreData_def doc_exists_def Let_def c(2) e(2) x(2))
  have u1: "doc_update (trades example_store) ''4'' [''exitDate'' \<mapsto> JStr ''soon'']
              = Inr ((trades example_store)(''4'' \<mapsto> ?bad))"
    unfolding doc_update_def m1 [symmetric] by (simp add: h)
  have u2: "doc_update ((trades example_store)(''4'' \<mapsto> ?bad)) ''4'' [''notes'' \<mapsto> JStr ''x'']
              = Inr ((trades example_store)(''4'' \<mapsto> ?bad'))"
    unfolding doc_update_def m2 [symmetric] by simp
  have r1: "updateTrade 4 [''exitDate'' \<mapsto> JStr ''soon''] example_store =
     (Inl (TypeError ''data.exitDate.toDate is not a function''),
      example_store\<lparr>trades := (trades example_store)(''4'' \<mapsto> ?bad)\<rparr>)"
    by (simp add: updateTrade_def toString_examples doc_get_def doc_exists_def Let_def u1 n1 h)
  have r2: "updateTrade 4 [''notes'' \<mapsto> JStr ''x'']
     (example_store\<lparr>trades := (trades example_store)(''4'' \<mapsto> ?bad)\<rparr>) =
     (Inl (TypeError ''data.exitDate.toDate is not a function''),
      example_store\<lparr>trades := (trades example_store)(''4'' \<mapsto> ?bad')\<rparr>)"
    by (simp add: updateTrade_def toString_examples doc_get_def doc_exists_def Let_def u2 n2)
  show ?thesis
    by (intro conjI r1 r2)
qed

theorem normalize_identifier_witness:
  "doc_data \<lparr>doc_id = ''7'', doc_data = Some example_trade\<rparr> = Some example_trade \<and>
   date_fields_ok example_trade \<and>
   (\<exists>r. convertFirestoreData \<lparr>doc_id = ''7'', doc_data = Some example_trade\<rparr> = Inr (Some r)
        \<and> r ''id'' = Some (JNum 7))"
proof -
  let ?doc = "\<lparr>doc_id = ''7'', doc_data = Some example_trade\<rparr>"
  have h: "doc_data ?doc = Some example_trade" by simp
  note t = normalize_identifier [OF h]
  obtain r where r: "convertFirestoreData ?doc = Inr (Some r)"
    using t [THEN conjunct1, THEN mp, OF example_dates_ok(1)] by (elim exE)
  have "r ''id'' = Some (if Number (doc_id ?doc) = JNaN then JStr (doc_id ?doc)
                               else Number (doc_id ?doc))"
    using t [THEN conjunct2, THEN conjunct1, THEN spec, THEN mp, OF r] .
  then have r7: "r ''id'' = Some (JNum 7)"
    by (simp add: Number_more_examples)
  show ?thesis
    by (intro conjI exI [of _ r] h example_dates_ok(1) r r7)
qed

theorem normalize_date_fields_witness:
  "doc_data \<lparr>doc_id = ''4'', doc_data = Some example_trade\<rparr> = Some example_trade \<and>
   ''entryDate'' \<in> {''createdAt'', ''entryDate'', ''exitDate''} \<and>
   date_fields_ok example_trade \<and>
   example_trade ''entryDate'' = Some (JTimestamp 1700000100 250000000) \<and>
   (\<exists>r. convertFirestoreData \<lparr>doc_id = ''4'', doc_data = Some example_trade\<rparr> = Inr (Some r) \<and>
        r ''entryDate'' = Some (JDate 1700000100250))"
proof -
  let ?doc = "\<lparr>doc_id = ''4'', doc_data = Some example_trade\<rparr>"
  have h: "doc_data ?doc = Some example_trade" by simp
  have m: "''entryDate'' \<in> {''createdAt'', ''entryDate'', ''exitDate''}" by simp
  have v: "example_trade ''entryDate'' = Some (JTimestamp 1700000100 250000000)"
    by (simp add: example_trade_def)
  note t = normalize_date_fields [OF h m]
  obtain r where r: "convertFirestoreData ?doc = Inr (Some r)"
    using t [THEN conjunct1, THEN mp, OF example_dates_ok(1)] by (elim exE)
  have "r ''entryDate'' = Some (JDate (toDate 1700000100 250000000))"
    using t [THEN conjunct2, THEN spec, THEN mp, OF r, THEN conjunct1, THEN spec, THEN spec,
        THEN mp, OF v] .
  then have e: "r ''entryDate'' = Some (JDate 1700000100250)"
    by (simp add: toDate_def)
  show ?thesis
    by (intro conjI exI [of _ r] h m example_dates_ok(1) v r e)
qed


theorem convertFirestoreCollection_maps_convertFirestoreData_witness:
  "doc_exists \<lparr>doc_id = ''4'', doc_data = Some example_trade\<rparr> \<and>
   doc_exists \<lparr>doc_id = ''abc'', doc_data = Some example_collection\<rparr> \<and>
   map_sum (\<lambda>e. e) (map Some)
     (convertFirestoreCollection
        [\<lparr>doc_id = ''4'', doc_data = Some example_trade\<rparr>,
         \<lparr>doc_id = ''abc'', doc_data = Some example_collection\<rparr>])
     = map_throwing convertFirestoreData
        [\<lparr>doc_id = ''4'', doc_data = Some example_trade\<rparr>,
         \<lparr>doc_id = ''abc'', doc_data = Some example_collection\<rparr>]"
proof -
  let ?docs = "[\<lparr>doc_id = ''4'', doc_data = Some example_trade\<rparr>,
                \<lparr>doc_id = ''abc'', doc_data = Some example_collection\<rparr>]"
  have e: "doc_exists \<lparr>doc_id = ''4'', doc_data = Some example_trade\<rparr>"
    "doc_exists \<lparr>doc_id = ''abc'', doc_data = Some example_collection\<rparr>"
    by (simp_all add: doc_exists_def)
  then have a: "\<forall>doc \<in> set ?docs. doc_exists doc" by simp
  show ?thesis
    by (intro conjI e convertFirestoreCollection_maps_convertFirestoreData
        [OF a, THEN conjunct1])
qed

theorem update_nonexistent_not_found_witness:
  "trades example_store (toString 9) = None \<and>
   collections example_store (toString 9) = None \<and>
   users example_store (toString 9) = None \<and>
   updateTrade 9 [''notes'' \<mapsto> JStr ''x''] example_store
     = (Inl (Error ''Trade not found''), example_store) \<and>
   updateCollection 9 [''name'' \<mapsto> JStr ''y''] example_store
     = (Inl (Error ''Collection not found''), example_store) \<and>
   updateUserPlan 9 ''pro'' example_store = (Inl (Error ''User not found''), example_store) \<and>
   updateUserStripeInfo 9 ''cus_1'' ''sub_1'' example_store
     = (Inl (Error ''User not found''), example_store)"
proof -
  have h: "trades example_store (toString 9) = None"
    "collections example_store (toString 9) = None"
    "users example_store (toString 9) = None"
    by (simp_all add: example_store_simps toString_examples)
  note t = update_nonexistent_not_found
    [of example_store 9 "[''notes'' \<mapsto> JStr ''x'']" "[''name'' \<mapsto> JStr ''y'']"
        "''pro''" "''cus_1''" "''sub_1''"]
  show ?thesis
    by (intro conjI h
        t [THEN conjunct1, THEN mp, OF h(1)]
        t [THEN conjunct2, THEN conjunct1, THEN mp, OF h(2)]
        t [THEN conjunct2, THEN conjunct2, THEN conjunct1, THEN mp, OF h(3)]
        t [THEN conjunct2, THEN conjunct2, THEN conjunct2, THEN mp, OF h(3)])
qed

lemma example_getNextId:
  "getNextId ''userId'' example_store =
     (Inr 2, example_store\<lparr>counters :=
        Some [''userId'' \<mapsto> 3, ''tradeId'' \<mapsto> 5, ''collectionId'' \<mapsto> 2]\<rparr>)"
  "getNextId ''tradeId'' example_store =
     (Inr 5, example_store\<lparr>counters :=
        Some [''userId'' \<mapsto> 2, ''tradeId'' \<mapsto> 6, ''collectionId'' \<mapsto> 2]\<rparr>)"
  "getNextId ''collectionId'' example_store =
     (Inr 2, example_store\<lparr>counters :=
        Some [''userId'' \<mapsto> 2, ''tradeId'' \<mapsto> 5, ''collectionId'' \<mapsto> 3]\<rparr>)"
proof -
  let ?d = "[''userId'' \<mapsto> 2, ''tradeId'' \<mapsto> 5, ''collectionId'' \<mapsto> (2::int)]"
  have u: "?d(''userId'' \<mapsto> 2 + 1) = [''userId'' \<mapsto> 3, ''tradeId'' \<mapsto> 5, ''collectionId'' \<mapsto> 2]"
    by (rule ext) simp
  have t: "?d(''tradeId'' \<mapsto> 5 + 1) = [''userId'' \<mapsto> 2, ''tradeId'' \<mapsto> 6, ''collectionId'' \<mapsto> 2]"
    by (rule ext) simp
  have c: "?d(''collectionId'' \<mapsto> 2 + 1) = [''userId'' \<mapsto> 2, ''tradeId'' \<mapsto> 5, ''collectionId'' \<mapsto> 3]"
    by (rule ext) simp
  show "getNextId ''userId'' example_store =
     (Inr 2, example_store\<lparr>counters :=
        Some [''userId'' \<mapsto> 3, ''tradeId'' \<mapsto> 5, ''collectionId'' \<mapsto> 2]\<rparr>)"
    using getNextId_step [of example_store ?d "''userId''" 2] unfolding u
    by (simp add: example_store_simps)
  show "getNextId ''tradeId'' example_store =
     (Inr 5, example_store\<lparr>counters :=
        Some [''userId'' \<mapsto> 2, ''tradeId'' \<mapsto> 6, ''collectionId'' \<mapsto> 2]\<rparr>)"
    using getNextId_step [of example_store ?d "''tradeId''" 5] unfolding t
    by (simp add: example_store_simps)
  show "getNextId ''collectionId'' example_store =
     (Inr 2, example_store\<lparr>counters :=
        Some [''userId'' \<mapsto> 2, ''tradeId'' \<mapsto> 5, ''collectionId'' \<mapsto> 3]\<rparr>)"
    using getNextId_step [of example_store ?d "''collectionId''" 2] unfolding c
    by (simp add: example_store_simps)
qed


theorem create_operations_witness:
  "getNextId ''userId'' example_store =
     (Inr 2, example_store\<lparr>counters :=
        Some [''userId'' \<mapsto> 3, ''tradeId'' \<mapsto> 5, ''collectionId'' \<mapsto> 2]\<rparr>) \<and>
   truthy_opt ([''username'' \<mapsto> JStr ''bob'', ''email'' \<mapsto> JStr ''b@x.com'', ''avatar'' \<mapsto> JStr ''a.png''] ''avatar'') \<and>
   (\<exists>user. fst (createUser [''username'' \<mapsto> JStr ''bob'', ''email'' \<mapsto> JStr ''b@x.com'', ''avatar'' \<mapsto> JStr ''a.png''] 1700000200000 example_store) = Inr user \<and>
      users (snd (createUser [''username'' \<mapsto> JStr ''bob'', ''email'' \<mapsto> JStr ''b@x.com'', ''avatar'' \<mapsto> JStr ''a.png''] 1700000200000 example_store)) (toString 2)
        = Some (to_document user) \<and>
      user ''id'' = Some (JNum 2) \<and> user ''createdAt'' = Some (JDate 1700000200000) \<and>
      user ''planType'' = Some (JStr ''free'') \<and>
      user ''avatar'' = Some (JStr ''a.png'') \<and>
      user ''username'' = Some (JStr ''bob'')) \<and>
   getNextId ''tradeId'' example_store =
     (Inr 5, example_store\<lparr>counters :=
        Some [''userId'' \<mapsto> 2, ''tradeId'' \<mapsto> 6, ''collectionId'' \<mapsto> 2]\<rparr>) \<and>
   truthy_opt ([''userId'' \<mapsto> JNum 1, ''symbol'' \<mapsto> JStr ''MSFT'', ''notes'' \<mapsto> JStr ''breakout''] ''notes'') \<and>
   [''userId'' \<mapsto> JNum 1, ''symbol'' \<mapsto> JStr ''MSFT'', ''notes'' \<mapsto> JStr ''breakout''] ''collectionId'' = None \<and>
   (\<exists>trade. fst (createTrade [''userId'' \<mapsto> JNum 1, ''symbol'' \<mapsto> JStr ''MSFT'', ''notes'' \<mapsto> JStr ''breakout''] 1700000200000 example_store) = Inr trade \<and>
      trades (snd (createTrade [''userId'' \<mapsto> JNum 1, ''symbol'' \<mapsto> JStr ''MSFT'', ''notes'' \<mapsto> JStr ''breakout''] 1700000200000 example_store)) (toString 5)
        = Some (to_document trade) \<and>
      trade ''id'' = Some (JNum 5) \<and> trade ''createdAt'' = Some (JDate 1700000200000) \<and>
      trade ''notes'' = Some (JStr ''breakout'') \<and> trade ''collectionId'' = Some JNull \<and>
      trade ''symbol'' = Some (JStr ''MSFT'')) \<and>
   getNextId ''collectionId'' example_store =
     (Inr 2, example_store\<lparr>counters :=
        Some [''userId'' \<mapsto> 2, ''tradeId'' \<mapsto> 5, ''collectionId'' \<mapsto> 3]\<rparr>) \<and>
   \<not> truthy_opt ([''userId'' \<mapsto> JNum 1, ''name'' \<mapsto> JStr ''day'', ''description'' \<mapsto> JStr ''''] ''description'') \<and>
   (\<exists>collection.
      fst (createCollection [''userId'' \<mapsto> JNum 1, ''name'' \<mapsto> JStr ''day'', ''description'' \<mapsto> JStr ''''] 1700000200000 example_store) = Inr collection \<and>
      collections (snd (createCollection [''userId'' \<mapsto> JNum 1, ''name'' \<mapsto> JStr ''day'', ''description'' \<mapsto> JStr ''''] 1700000200000 example_store)) (toString 2)
        = Some (to_document collection) \<and>
      collection ''id'' = Some (JNum 2) \<and>
      collection ''createdAt'' = Some (JDate 1700000200000) \<and>
      collection ''description'' = Some JNull \<and>
      collection ''name'' = Some (JStr ''day''))"
proof -
  let ?su = "example_store\<lparr>counters :=
        Some [''userId'' \<mapsto> 3, ''tradeId'' \<mapsto> 5, ''collectionId'' \<mapsto> 2]\<rparr>"
  let ?st = "example_store\<lparr>counters :=
        Some [''userId'' \<mapsto> 2, ''tradeId'' \<mapsto> 6, ''collectionId'' \<mapsto> 2]\<rparr>"
  let ?sc = "example_store\<lparr>counters :=
        Some [''userId'' \<mapsto> 2, ''tradeId'' \<mapsto> 5, ''collectionId'' \<mapsto> 3]\<rparr>"
  let ?pu = "[''username'' \<mapsto> JStr ''bob'', ''email'' \<mapsto> JStr ''b@x.com'', ''avatar'' \<mapsto> JStr ''a.png'']"
  let ?pt = "[''userId'' \<mapsto> JNum 1, ''symbol'' \<mapsto> JStr ''MSFT'', ''notes'' \<mapsto> JStr ''breakout'']"
  let ?pc = "[''userId'' \<mapsto> JNum 1, ''name'' \<mapsto> JStr ''day'', ''description'' \<mapsto> JStr '''']"
  have hu: "truthy_opt (?pu ''avatar'')"
    by (simp add: truthy_opt_def)
  have ht: "truthy_opt (?pt ''notes'')" "?pt ''collectionId'' = None"
    by (simp_all add: truthy_opt_def)
  have hc: "\<not> truthy_opt (?pc ''description'')"
    by (simp add: truthy_opt_def)
  have u: "\<exists>user. fst (createUser ?pu 1700000200000 example_store) = Inr user \<and>
      users (snd (createUser ?pu 1700000200000 example_store)) (toString 2)
        = Some (to_document user) \<and>
      user ''id'' = Some (JNum 2) \<and> user ''createdAt'' = Some (JDate 1700000200000) \<and>
      user ''planType'' = Some (JStr ''free'') \<and>
      user ''avatar'' = Some (JStr ''a.png'') \<and>
      user ''username'' = Some (JStr ''bob'')"
  proof -
    from create_operations [of example_store 2 ?su ?pu 1700000200000,
        THEN conjunct1, THEN mp, OF example_getNextId(1)]
    obtain user where g:
      "createUser ?pu 1700000200000 example_store =
         (Inr user, ?su\<lparr>users := (users ?su)(toString 2 \<mapsto> to_document user)\<rparr>)"
      "user ''id'' = Some (JNum (of_int 2))" "user ''createdAt'' = Some (JDate 1700000200000)"
      "user ''planType'' = Some (JStr ''free'')"
      "truthy_opt (?pu ''avatar'') \<longrightarrow> user ''avatar'' = ?pu ''avatar''"
      "\<forall>f. f \<notin> {''id'', ''createdAt'', ''stripeCustomerId'', ''stripeSubscriptionId'',
                    ''planType'', ''avatar''} \<longrightarrow> user f = ?pu f"
      by (elim exE conjE)
    have "user ''avatar'' = Some (JStr ''a.png'')" using g(5) hu by simp
    moreover have "user ''username'' = Some (JStr ''bob'')" using g(6) by simp
    moreover have "user ''id'' = Some (JNum 2)" using g(2) by simp
    ultimately show ?thesis using g(1,3,4) by (intro exI [of _ user]) simp
  qed
  have t: "\<exists>trade. fst (createTrade ?pt 1700000200000 example_store) = Inr trade \<and>
      trades (snd (createTrade ?pt 1700000200000 example_store)) (toString 5)
        = Some (to_document trade) \<and>
      trade ''id'' = Some (JNum 5) \<and> trade ''createdAt'' = Some (JDate 1700000200000) \<and>
      trade ''notes'' = Some (JStr ''breakout'') \<and> trade ''collectionId'' = Some JNull \<and>
      trade ''symbol'' = Some (JStr ''MSFT'')"
  proof -
    from create_operations [of example_store 5 ?st _ _ ?pt,
        THEN conjunct2, THEN conjunct1, THEN mp, OF example_getNextId(2), of 1700000200000]
    obtain trade where g:
      "createTrade ?pt 1700000200000 example_store =
         (Inr trade, ?st\<lparr>trades := (trades ?st)(toString 5 \<mapsto> to_document trade)\<rparr>)"
      "trade ''id'' = Some (JNum (of_int 5))" "trade ''createdAt'' = Some (JDate 1700000200000)"
      "truthy_opt (?pt ''notes'') \<longrightarrow> trade ''notes'' = ?pt ''notes''"
      "?pt ''collectionId'' = None \<longrightarrow> trade ''collectionId'' = Some JNull"
      "\<forall>f. f \<notin> {''id'', ''createdAt'', ''notes'', ''collectionId''} \<longrightarrow> trade f = ?pt f"
      by (elim exE conjE)
    have "trade ''notes'' = Some (JStr ''breakout'')" using g(4) ht(1) by simp
    moreover have "trade ''collectionId'' = Some JNull" using g(5) ht(2) by simp
    moreover have "trade ''symbol'' = Some (JStr ''MSFT'')" using g(6) by simp
    moreover have "trade ''id'' = Some (JNum 5)" using g(2) by simp
    ultimately show ?thesis using g(1,3) by (intro exI [of _ trade]) simp
  qed
  have c: "\<exists>collection.
      fst (createCollection ?pc 1700000200000 example_store) = Inr collection \<and>
      collections (snd (createCollection ?pc 1700000200000 example_store)) (toString 2)
        = Some (to_document collection) \<and>
      collection ''id'' = Some (JNum 2) \<and>
      collection ''createdAt'' = Some (JDate 1700000200000) \<and>
      collection ''description'' = Some JNull \<and>
      collection ''name'' = Some (JStr ''day'')"
  proof -
    from create_operations [of example_store 2 ?sc _ _ _ ?pc,
        THEN conjunct2, THEN conjunct2, THEN mp, OF example_getNextId(3), of 1700000200000]
    obtain collection where g:
      "createCollection ?pc 1700000200000 example_store =
         (Inr collection,
          ?sc\<lparr>collections := (collections ?sc)(toString 2 \<mapsto> to_document collection)\<rparr>)"
      "collection ''id'' = Some (JNum (of_int 2))"
      "collection ''createdAt'' = Some (JDate 1700000200000)"
      "\<not> truthy_opt (?pc ''description'') \<longrightarrow> collection ''description'' = Some JNull"
      "\<forall>f. f \<notin> {''id'', ''createdAt'', ''description''} \<longrightarrow> collection f = ?pc f"
      by (elim exE conjE)
    have "collection ''description'' = Some JNull" using g(4) hc by simp
    moreover have "collection ''name'' = Some (JStr ''day'')" using g(5) by simp
    moreover have "collection ''id'' = Some (JNum 2)" using g(2) by simp
    ultimately show ?thesis using g(1,3) by (intro exI [of _ collection]) simp
  qed
  show ?thesis
    by (intro conjI example_getNextId hu ht hc u t c)
qed

theorem createUser_overrides_plan_and_stripe_witness:
  "getNextId ''userId'' example_store =
     (Inr 2, example_store\<lparr>counters :=
        Some [''userId'' \<mapsto> 3, ''tradeId'' \<mapsto> 5, ''collectionId'' \<mapsto> 2]\<rparr>) \<and>
   truthy_opt ([''username'' \<mapsto> JStr ''bob'', ''planType'' \<mapsto> JStr ''pro'',
                ''stripeCustomerId'' \<mapsto> JStr ''cus_9'', ''stripeSubscriptionId'' \<mapsto> JStr ''sub_9'',
                ''avatar'' \<mapsto> JStr ''a.png''] ''avatar'') \<and>
   (\<exists>user s' stored.
      createUser [''username'' \<mapsto> JStr ''bob'', ''planType'' \<mapsto> JStr ''pro'',
                  ''stripeCustomerId'' \<mapsto> JStr ''cus_9'', ''stripeSubscriptionId'' \<mapsto> JStr ''sub_9'',
                  ''avatar'' \<mapsto> JStr ''a.png''] 1700000200000 example_store = (Inr user, s') \<and>
      users s' (toString 2) = Some stored \<and>
      user ''planType'' = Some (JStr ''free'') \<and>
      user ''stripeCustomerId'' = Some JNull \<and>
      user ''stripeSubscriptionId'' = Some JNull \<and>
      stored ''planType'' = Some (JStr ''free'') \<and>
      stored ''stripeCustomerId'' = Some JNull \<and>
      stored ''stripeSubscriptionId'' = Some JNull \<and>
      user ''avatar'' = Some (JStr ''a.png'') \<and>
      stored ''avatar'' = Some (JStr ''a.png''))"
proof -
  let ?p = "[''username'' \<mapsto> JStr ''bob'', ''planType'' \<mapsto> JStr ''pro'',
             ''stripeCustomerId'' \<mapsto> JStr ''cus_9'', ''stripeSubscriptionId'' \<mapsto> JStr ''sub_9'',
             ''avatar'' \<mapsto> JStr ''a.png'']"
  have a: "truthy_opt (?p ''avatar'')"
    by (simp add: truthy_opt_def)
  from createUser_overrides_plan_and_stripe [OF example_getNextId(1), of ?p 1700000200000]
  obtain user s' stored where g:
    "createUser ?p 1700000200000 example_store = (Inr user, s')"
    "users s' (toString 2) = Some stored"
    "user ''planType'' = Some (JStr ''free'')"
    "user ''stripeCustomerId'' = Some JNull"
    "user ''stripeSubscriptionId'' = Some JNull"
    "stored ''planType'' = Some (JStr ''free'')"
    "stored ''stripeCustomerId'' = Some JNull"
    "stored ''stripeSubscriptionId'' = Some JNull"
    "truthy_opt (?p ''avatar'') \<longrightarrow>
       user ''avatar'' = ?p ''avatar'' \<and>
       stored ''avatar'' = map_option to_firestore (?p ''avatar'')"
    by (elim exE conjE)
  have v: "user ''avatar'' = Some (JStr ''a.png'')" "stored ''avatar'' = Some (JStr ''a.png'')"
    using g(9) a by simp_all
  have e: "\<exists>user s' stored.
      createUser ?p 1700000200000 example_store = (Inr user, s') \<and>
      users s' (toString 2) = Some stored \<and>
      user ''planType'' = Some (JStr ''free'') \<and>
      user ''stripeCustomerId'' = Some JNull \<and>
      user ''stripeSubscriptionId'' = Some JNull \<and>
      stored ''planType'' = Some (JStr ''free'') \<and>
      stored ''stripeCustomerId'' = Some JNull \<and>
      stored ''stripeSubscriptionId'' = Some JNull \<and>
      user ''avatar'' = Some (JStr ''a.png'') \<and>
      stored ''avatar'' = Some (JStr ''a.png'')"
    by (intro exI [of _ user] exI [of _ s'] exI [of _ stored] conjI g(1-8) v)
  show ?thesis
    by (intro conjI example_getNextId(1) a e)
qed

end
